theory Spec2Isabelle
  imports Complex_Main
begin

section \<open>Python values used by sysinfo\_widget.py\<close>

text \<open>
  Strings are byte strings (UTF-8); the icons and the degree sign are written as their
  UTF-8 bytes. Python integers are unbounded, so they are \<open>int\<close>. A Python float is
  represented by the exact rational value of the (finite) double. The three operations of
  the Python runtime on floats that the program relies on are parameters of the model:
  \<open>fl\<close> rounds an exact result to the nearest double, \<open>round1\<close> is the built-in
  \<open>round(x, 1)\<close> and \<open>float_str\<close> is \<open>str\<close> on a float.
\<close>

datatype py_error = ZeroDivisionError | ValueError | IndexError | OSError

datatype pynum = PInt int | PFloat rat

record float_ops =
  fl :: "rat \<Rightarrow> rat"
  round1 :: "rat \<Rightarrow> rat"
  float_str :: "rat \<Rightarrow> string"

fun num_val :: "pynum \<Rightarrow> rat" where
  "num_val (PInt i) = of_int i"
| "num_val (PFloat q) = q"

subsection \<open>str of an integer\<close>

definition digit_char :: "int \<Rightarrow> char" where
  "digit_char d = char_of (48 + d)"

text \<open>The decimal digits of a non-negative integer.\<close>

function str_digits :: "int \<Rightarrow> string" where
  "str_digits n = (if n < 10 then [digit_char n] else str_digits (n div 10) @ [digit_char (n mod 10)])"
  by pat_completeness auto
termination
  by (relation "measure nat") auto

declare str_digits.simps [simp del]

definition str_int :: "int \<Rightarrow> string" where
  "str_int i = (if i < 0 then CHR ''-'' # str_digits (- i) else str_digits i)"

definition py_str :: "float_ops \<Rightarrow> pynum \<Rightarrow> string" where
  "py_str ops v = (case v of PInt i \<Rightarrow> str_int i | PFloat q \<Rightarrow> float_str ops q)"

section \<open>Presentation formatter\<close>

definition ESC :: char where
  "ESC = CHR 0x1B"

definition red :: "string \<Rightarrow> string" where
  "red s = ESC # ''[31m'' @ s @ ESC # ''[0m''"

definition yellow :: "string \<Rightarrow> string" where
  "yellow s = ESC # ''[33m'' @ s @ ESC # ''[0m''"

definition green :: "string \<Rightarrow> string" where
  "green s = ESC # ''[32m'' @ s @ ESC # ''[0m''"

text \<open>\<open>color(val, warn, crit, minimal)\<close>, lines 88-95.\<close>

definition color :: "float_ops \<Rightarrow> pynum \<Rightarrow> pynum \<Rightarrow> pynum \<Rightarrow> bool \<Rightarrow> string" where
  "color ops val warn crit minimal =
     (if minimal then py_str ops val
      else if num_val val \<ge> num_val crit then red (py_str ops val)
      else if num_val val \<ge> num_val warn then yellow (py_str ops val)
      else green (py_str ops val))"

text \<open>\<open>color_ratio(val, minimal)\<close>, lines 97-105.\<close>

definition color_ratio :: "float_ops \<Rightarrow> pynum \<Rightarrow> bool \<Rightarrow> string" where
  "color_ratio ops val minimal =
     (if minimal then py_str ops val
      else if num_val val < 2 then red (py_str ops val)
      else if num_val val < 3 then yellow (py_str ops val)
      else green (py_str ops val))"

text \<open>\<open>format_gb(kb) = round(kb / 1024 / 1024, 1)\<close>, lines 107-108: an int divided by an
  int, the float result divided by an int, then rounded to one decimal.\<close>

definition format_gb :: "float_ops \<Rightarrow> int \<Rightarrow> rat" where
  "format_gb ops kb = round1 ops (fl ops (fl ops (of_int kb / 1024) / 1024))"


section \<open>Python string operations\<close>

text \<open>
  Whitespace as \<open>str.split()\<close>, \<open>str.strip()\<close> and \<open>int()\<close> see it, restricted to the
  ASCII range (tab, newline, vertical tab, form feed, carriage return, the four separators
  0x1C-0x1F and the space).
\<close>

definition is_space :: "char \<Rightarrow> bool" where
  "is_space c = (let n = of_char c :: int in (9 \<le> n \<and> n \<le> 13) \<or> (28 \<le> n \<and> n \<le> 32))"

definition is_digit :: "char \<Rightarrow> bool" where
  "is_digit c = (let n = of_char c :: int in 48 \<le> n \<and> n \<le> 57)"

definition digit_val :: "char \<Rightarrow> int" where
  "digit_val c = of_char c - 48"

definition py_strip :: "string \<Rightarrow> string" where
  "py_strip s = rev (dropWhile is_space (rev (dropWhile is_space s)))"

text \<open>\<open>s.split()\<close>: maximal runs of non-whitespace characters.\<close>

fun split_ws_aux :: "string \<Rightarrow> string \<Rightarrow> string list" where
  "split_ws_aux cur [] = (if cur = [] then [] else [rev cur])"
| "split_ws_aux cur (c # cs) =
     (if is_space c then (if cur = [] then split_ws_aux [] cs else rev cur # split_ws_aux [] cs)
      else split_ws_aux (c # cur) cs)"

definition py_split :: "string \<Rightarrow> string list" where
  "py_split s = split_ws_aux [] s"

text \<open>\<open>s.split(sep)\<close> for a one-character separator: empty pieces are kept.\<close>

fun split_sep_aux :: "char \<Rightarrow> string \<Rightarrow> string \<Rightarrow> string list" where
  "split_sep_aux sep cur [] = [rev cur]"
| "split_sep_aux sep cur (c # cs) =
     (if c = sep then rev cur # split_sep_aux sep [] cs else split_sep_aux sep (c # cur) cs)"

definition py_split_sep :: "char \<Rightarrow> string \<Rightarrow> string list" where
  "py_split_sep sep s = split_sep_aux sep [] s"

fun startswith :: "string \<Rightarrow> string \<Rightarrow> bool" where
  "startswith s [] = True"
| "startswith [] (p # ps) = False"
| "startswith (c # cs) (p # ps) = (c = p \<and> startswith cs ps)"

definition endswith :: "string \<Rightarrow> string \<Rightarrow> bool" where
  "endswith s p = startswith (rev s) (rev p)"

text \<open>\<open>p in s\<close> on strings: \<open>p\<close> occurs as a contiguous piece of \<open>s\<close>.\<close>

fun py_in :: "string \<Rightarrow> string \<Rightarrow> bool" where
  "py_in p [] = (p = [])"
| "py_in p (c # cs) = (startswith (c # cs) p \<or> py_in p cs)"

text \<open>
  \<open>int(s)\<close> in base 10: surrounding whitespace is dropped, then an optional sign, then
  digits, where single underscores may stand between digits. \<open>None\<close> is the ValueError.
\<close>

fun parse_digits :: "int \<Rightarrow> bool \<Rightarrow> string \<Rightarrow> int option" where
  "parse_digits acc prev_digit [] = (if prev_digit then Some acc else None)"
| "parse_digits acc prev_digit (c # cs) =
     (if is_digit c then parse_digits (acc * 10 + digit_val c) True cs
      else if c = CHR ''_'' \<and> prev_digit \<and> cs \<noteq> [] then parse_digits acc False cs
      else None)"

definition py_int :: "string \<Rightarrow> int option" where
  "py_int s =
     (case py_strip s of
        [] \<Rightarrow> None
      | c # cs \<Rightarrow>
          if c = CHR ''-'' then map_option uminus (parse_digits 0 False cs)
          else if c = CHR ''+'' then parse_digits 0 False cs
          else parse_digits 0 False (c # cs))"

text \<open>\<open>int(x)\<close> on a float: truncation towards zero.\<close>

definition py_trunc :: "rat \<Rightarrow> int" where
  "py_trunc q = (if q \<ge> 0 then \<lfloor>q\<rfloor> else \<lceil>q\<rceil>)"

section \<open>The operating system's interfaces, as the readers see them\<close>

text \<open>
  \<open>vm\<close> is the result of \<open>psutil.virtual_memory()\<close> (bytes). A pseudo-file is the list of
  its lines, or \<open>None\<close> when opening or reading it fails. \<open>sys_block\<close> is the listing of
  /sys/block, each entry with the contents of its compr\_data\_size and orig\_data\_size
  files (\<open>None\<close> when the file cannot be read); \<open>None\<close> for the listing itself is
  \<open>os.listdir\<close> raising. \<open>cpu_percent\<close> is what \<open>psutil.cpu_percent\<close> returns and
  \<open>sensors_temp\<close> what \<open>get_cpu_temp\<close> extracts from the output of the sensors tool.
\<close>

record vmem =
  vm_total :: int
  vm_available :: int
  vm_cached :: int

record os_state =
  cpu_percent :: rat
  sensors_temp :: "rat option"
  vm :: vmem
  proc_meminfo :: "string list option"
  sys_block :: "(string \<times> string option \<times> string option) list option"
  proc_swaps :: "string list option"

section \<open>Metric readers\<close>

subsection \<open>RAM, lines 22-38\<close>

definition parse_meminfo_line :: "string \<Rightarrow> py_error + (string \<times> int)" where
  "parse_meminfo_line line =
     (case py_split_sep CHR '':'' line of
        [key, val] \<Rightarrow>
          (case py_split (py_strip val) of
             [] \<Rightarrow> Inl IndexError
           | tok # _ \<Rightarrow>
               (case py_int tok of
                  None \<Rightarrow> Inl ValueError
                | Some v \<Rightarrow> Inr (py_strip key, v)))
      | _ \<Rightarrow> Inl ValueError)"

fun read_meminfo :: "string list \<Rightarrow> (string \<rightharpoonup> int) \<Rightarrow> py_error + (string \<rightharpoonup> int)" where
  "read_meminfo [] meminfo = Inr meminfo"
| "read_meminfo (line # rest) meminfo =
     (case parse_meminfo_line line of
        Inl e \<Rightarrow> Inl e
      | Inr (key, v) \<Rightarrow> read_meminfo rest (meminfo(key \<mapsto> v)))"

definition dict_get :: "(string \<rightharpoonup> int) \<Rightarrow> string \<Rightarrow> int \<Rightarrow> int" where
  "dict_get d k dflt = (case d k of None \<Rightarrow> dflt | Some v \<Rightarrow> v)"

text \<open>The value of \<open>cached\<close> after the try/except of lines 25-32, in kilobytes.\<close>

definition ram_cached_kb :: "os_state \<Rightarrow> int" where
  "ram_cached_kb st =
     (case proc_meminfo st of
        None \<Rightarrow> vm_cached (vm st) div 1024
      | Some lines \<Rightarrow>
          (case read_meminfo lines Map.empty of
             Inl e \<Rightarrow> vm_cached (vm st) div 1024
           | Inr meminfo \<Rightarrow>
               dict_get meminfo ''Cached'' 0 + dict_get meminfo ''SReclaimable'' 0
                 - dict_get meminfo ''Shmem'' 0))"

definition get_ram_usage :: "os_state \<Rightarrow> int \<times> int \<times> int" where
  "get_ram_usage st =
     (let cached = ram_cached_kb st;
          used_mb = (vm_total (vm st) - vm_available (vm st)) div (1024 ^ 2);
          cached_mb = cached div 1024;
          total_mb = vm_total (vm st) div (1024 ^ 2)
      in (used_mb, total_mb, cached_mb))"

subsection \<open>zram, lines 40-72\<close>

text \<open>The loop over the listing of /sys/block: the state is
  \<open>(total_used, total_orig, found)\<close>.\<close>

fun zram_scan :: "(string \<times> string option \<times> string option) list \<Rightarrow> int \<times> int \<times> bool
    \<Rightarrow> int \<times> int \<times> bool" where
  "zram_scan [] acc = acc"
| "zram_scan ((name, compr, orig) # rest) (total_used, total_orig, found) =
     (if \<not> startswith name ''zram'' then zram_scan rest (total_used, total_orig, found)
      else
        (case Option.bind compr py_int of
           None \<Rightarrow> zram_scan rest (total_used, total_orig, True)
         | Some used \<Rightarrow>
             (case Option.bind orig py_int of
                None \<Rightarrow> zram_scan rest (total_used, total_orig, True)
              | Some orig_sz \<Rightarrow> zram_scan rest (total_used + used, total_orig + orig_sz, True))))"

text \<open>\<open>int(l.split()[n])\<close>; \<open>None\<close> stands for the IndexError or ValueError, which the
  callers catch alike.\<close>

definition int_field :: "nat \<Rightarrow> string \<Rightarrow> int option" where
  "int_field n l = (let parts = py_split l in if n < length parts then py_int (parts ! n) else None)"

fun sum_fields :: "nat \<Rightarrow> string list \<Rightarrow> int option" where
  "sum_fields n [] = Some 0"
| "sum_fields n (l # ls) =
     (case int_field n l of
        None \<Rightarrow> None
      | Some v \<Rightarrow> (case sum_fields n ls of None \<Rightarrow> None | Some s \<Rightarrow> Some (v + s)))"

text \<open>The try block of lines 61-70 followed by \<open>return None\<close>.\<close>

definition zram_from_swaps :: "string list option \<Rightarrow> (int \<times> int) option" where
  "zram_from_swaps swaps =
     (case swaps of
        None \<Rightarrow> None
      | Some all_lines \<Rightarrow>
          (let zram_lines = filter (py_in ''zram'') (drop 1 all_lines) in
           case sum_fields 3 zram_lines of
             None \<Rightarrow> None
           | Some used_kb \<Rightarrow>
               (case sum_fields 2 zram_lines of
                  None \<Rightarrow> None
                | Some total_kb \<Rightarrow> if total_kb > 0 then Some (used_kb, total_kb) else None)))"

definition get_zram_usage :: "os_state \<Rightarrow> py_error + (int \<times> int) option" where
  "get_zram_usage st =
     (case sys_block st of
        None \<Rightarrow> Inl OSError
      | Some devs \<Rightarrow>
          (case zram_scan devs (0, 0, False) of
             (total_used, total_orig, found) \<Rightarrow>
               if found \<and> total_orig > 0 then Inr (Some (total_used div 1024, total_orig div 1024))
               else Inr (zram_from_swaps (proc_swaps st))))"

subsection \<open>Swap, lines 74-86\<close>

fun first_swap :: "string list \<Rightarrow> (int \<times> int) option" where
  "first_swap [] = None"
| "first_swap (line # rest) =
     (case py_split line of
        [] \<Rightarrow> None
      | p0 # _ \<Rightarrow>
          if endswith p0 ''swap'' \<or> p0 = ''/swapfile'' \<or> py_in ''/swap/'' p0 then
            (case int_field 2 line of
               None \<Rightarrow> None
             | Some total_sz \<Rightarrow>
                 (case int_field 3 line of None \<Rightarrow> None | Some used \<Rightarrow> Some (used, total_sz)))
          else first_swap rest)"

definition get_swap_usage :: "os_state \<Rightarrow> (int \<times> int) option" where
  "get_swap_usage st = (case proc_swaps st of None \<Rightarrow> None | Some all_lines \<Rightarrow> first_swap (drop 1 all_lines))"

section \<open>Orchestrator, lines 110-189\<close>

record config =
  minimal :: bool
  show_ratio :: bool
  show_saved :: bool
  hide_cpu :: bool
  hide_cpu_temp :: bool
  hide_ram :: bool
  hide_ram_cache :: bool
  hide_zram :: bool
  hide_swap :: bool

text \<open>The four labels that \<open>main\<close> passes to its \<open>icon\<close> lambda (lines 143-145); they are
  exactly the keys of its dictionary, so the lookup cannot fail.\<close>

datatype label = Cpu | Temp | Ram | Zram

fun label_text :: "label \<Rightarrow> string" where
  "label_text Cpu = ''cpu''"
| "label_text Temp = ''temp''"
| "label_text Ram = ''ram''"
| "label_text Zram = ''zram''"

fun glyph :: "label \<Rightarrow> string" where
  "glyph Cpu = [CHR 0xF0, CHR 0x9F, CHR 0xA7, CHR 0xA0]"
| "glyph Temp = [CHR 0xF0, CHR 0x9F, CHR 0x8C, CHR 0xA1]"
| "glyph Ram = [CHR 0xF0, CHR 0x9F, CHR 0x92, CHR 0xBE]"
| "glyph Zram = [CHR 0xF0, CHR 0x9F, CHR 0x93, CHR 0xA6]"

definition icon :: "bool \<Rightarrow> label \<Rightarrow> string" where
  "icon mini l = (if mini then label_text l else glyph l)"

definition swap_icon :: "bool \<Rightarrow> string" where
  "swap_icon mini = (if \<not> mini then [CHR 0xF0, CHR 0x9F, CHR 0x92, CHR 0xBD] else ''SWP'')"

definition degree_C :: string where
  "degree_C = [CHR 0xC2, CHR 0xB0, CHR ''C'']"

text \<open>Lines 149-150.\<close>

definition cpu_part :: "float_ops \<Rightarrow> config \<Rightarrow> rat option \<Rightarrow> string list" where
  "cpu_part ops cfg cpu =
     (case cpu of
        None \<Rightarrow> []
      | Some c \<Rightarrow> [icon (minimal cfg) Cpu @ '' '' @ color ops (PFloat c) (PInt 70) (PInt 90) (minimal cfg) @ ''%''])"

text \<open>Lines 152-153.\<close>

definition temp_part :: "float_ops \<Rightarrow> config \<Rightarrow> rat option \<Rightarrow> string list" where
  "temp_part ops cfg temp =
     (case temp of
        None \<Rightarrow> []
      | Some t \<Rightarrow>
          [icon (minimal cfg) Temp @ '' '' @ color ops (PInt (py_trunc t)) (PInt 70) (PInt 85) (minimal cfg)
             @ degree_C])"

text \<open>Lines 155-162.\<close>

definition ram_part :: "float_ops \<Rightarrow> config \<Rightarrow> (int \<times> int \<times> int) option \<Rightarrow> string list" where
  "ram_part ops cfg ram =
     (case ram of
        None \<Rightarrow> []
      | Some (used_ram, total_ram, cached_ram) \<Rightarrow>
          (let used_gb = round1 ops (fl ops (of_int used_ram / 1024));
               total_gb = round1 ops (fl ops (of_int total_ram / 1024));
               cached_gb = round1 ops (fl ops (of_int cached_ram / 1024));
               ram_str = color ops (PFloat used_gb) (PFloat (fl ops (total_gb * fl ops (3 / 4))))
                           (PFloat (fl ops (total_gb * fl ops (9 / 10)))) (minimal cfg)
                         @ ''/'' @ float_str ops total_gb @ ''GB'';
               ram_str2 = (if \<not> hide_ram_cache cfg
                           then ram_str @ '' (cache '' @ float_str ops cached_gb @ ''GB)''
                           else ram_str)
           in [icon (minimal cfg) Ram @ '' '' @ ram_str2]))"

text \<open>The value of \<open>zram_str\<close> after lines 166-172: the sizes, and the ratio when it is
  asked for and the compressed size is positive.\<close>

definition zram_ratio_val :: "float_ops \<Rightarrow> int \<Rightarrow> int \<Rightarrow> rat" where
  "zram_ratio_val ops z_used_kb z_total_kb = round1 ops (fl ops (of_int z_total_kb / of_int z_used_kb))"

definition zram_str_ratio :: "float_ops \<Rightarrow> config \<Rightarrow> int \<Rightarrow> int \<Rightarrow> string" where
  "zram_str_ratio ops cfg z_used_kb z_total_kb =
     (let zram_str = float_str ops (format_gb ops z_used_kb) @ ''/''
                       @ float_str ops (format_gb ops z_total_kb) @ ''GB''
      in if show_ratio cfg \<and> z_used_kb > 0
         then zram_str @ '' ('' @ color_ratio ops (PFloat (zram_ratio_val ops z_used_kb z_total_kb)) (minimal cfg)
                @ '':1)''
         else zram_str)"

text \<open>Lines 173-175, applied to the \<open>zram_str\<close> built so far. The division by
  \<open>z_total_kb\<close> raises when that is zero.\<close>

definition zram_saved_val :: "float_ops \<Rightarrow> int \<Rightarrow> int \<Rightarrow> rat" where
  "zram_saved_val ops z_used_kb z_total_kb =
     round1 ops (fl ops (100 * fl ops (1 - fl ops (of_int z_used_kb / of_int z_total_kb))))"

definition zram_str_saved :: "float_ops \<Rightarrow> config \<Rightarrow> int \<Rightarrow> int \<Rightarrow> string \<Rightarrow> py_error + string" where
  "zram_str_saved ops cfg z_used_kb z_total_kb zram_str =
     (if show_saved cfg \<and> z_used_kb > 0 then
        (if z_total_kb = 0 then Inl ZeroDivisionError
         else Inr (zram_str @ '' Saved '' @ float_str ops (zram_saved_val ops z_used_kb z_total_kb) @ ''%''))
      else Inr zram_str)"

text \<open>Lines 164-178.\<close>

definition zram_part :: "float_ops \<Rightarrow> config \<Rightarrow> (int \<times> int) option \<Rightarrow> py_error + string list" where
  "zram_part ops cfg zram =
     (case zram of
        Some (z_used_kb, z_total_kb) \<Rightarrow>
          (case zram_str_saved ops cfg z_used_kb z_total_kb (zram_str_ratio ops cfg z_used_kb z_total_kb) of
             Inl e \<Rightarrow> Inl e
           | Inr zram_str \<Rightarrow> Inr [icon (minimal cfg) Zram @ '' '' @ zram_str])
      | None \<Rightarrow> if \<not> hide_zram cfg then Inr [icon (minimal cfg) Zram @ '' -''] else Inr [])"

text \<open>Lines 180-187.\<close>

definition swap_part :: "float_ops \<Rightarrow> config \<Rightarrow> (int \<times> int) option \<Rightarrow> string list" where
  "swap_part ops cfg swap =
     (case swap of
        None \<Rightarrow> []
      | Some (used_kb, total_kb) \<Rightarrow>
          (let swap_str = float_str ops (format_gb ops used_kb) @ ''/''
                            @ float_str ops (format_gb ops total_kb) @ ''GB'';
               swap_str2 = (if used_kb > 0 then (if \<not> minimal cfg then red swap_str else swap_str)
                            else swap_str)
           in [swap_icon (minimal cfg) @ '' '' @ swap_str2]))"

text \<open>\<open>output_parts\<close> as it stands at line 189, from what the readers returned.\<close>

definition output_parts :: "float_ops \<Rightarrow> config \<Rightarrow> rat option \<Rightarrow> rat option \<Rightarrow> (int \<times> int \<times> int) option
    \<Rightarrow> (int \<times> int) option \<Rightarrow> (int \<times> int) option \<Rightarrow> py_error + string list" where
  "output_parts ops cfg cpu temp ram zram swap =
     (case zram_part ops cfg zram of
        Inl e \<Rightarrow> Inl e
      | Inr zp \<Rightarrow>
          Inr (cpu_part ops cfg cpu @ temp_part ops cfg temp @ ram_part ops cfg ram @ zp
                 @ swap_part ops cfg swap))"

fun py_join :: "string \<Rightarrow> string list \<Rightarrow> string" where
  "py_join sep [] = []"
| "py_join sep [x] = x"
| "py_join sep (x # y # ys) = x @ sep @ py_join sep (y # ys)"

text \<open>\<open>main\<close>: the text written to standard output, or the exception that ends the run.\<close>

definition main :: "float_ops \<Rightarrow> config \<Rightarrow> os_state \<Rightarrow> py_error + string" where
  "main ops cfg st =
     (let cpu = (if \<not> hide_cpu cfg then Some (cpu_percent st) else None);
          temp = (if \<not> hide_cpu_temp cfg then sensors_temp st else None);
          swap = (if \<not> hide_swap cfg then get_swap_usage st else None);
          ram = (if \<not> hide_ram cfg then Some (get_ram_usage st) else None)
      in case (if \<not> hide_zram cfg then get_zram_usage st else Inr None) of
           Inl e \<Rightarrow> Inl e
         | Inr zram \<Rightarrow>
             (case output_parts ops cfg cpu temp ram zram swap of
                Inl e \<Rightarrow> Inl e
              | Inr parts \<Rightarrow> Inr (py_join '' '' parts @ [CHR 0x0A])))"

section \<open>An instance of the float operations\<close>

text \<open>
  Exact arithmetic: no rounding to a double, \<open>round(x, 1)\<close> as rounding to the nearest
  tenth with ties to the even one, and \<open>str\<close> printing one decimal. It serves to run the
  definitions above on concrete inputs; the theorems below hold for every \<open>float_ops\<close>.
\<close>

definition round_half_even :: "rat \<Rightarrow> int" where
  "round_half_even q =
     (let f = \<lfloor>q\<rfloor>; d = q - of_int f
      in if d < 1 / 2 then f else if d > 1 / 2 then f + 1 else if even f then f else f + 1)"

definition exact_round1 :: "rat \<Rightarrow> rat" where
  "exact_round1 q = of_int (round_half_even (q * 10)) / 10"

definition exact_str :: "rat \<Rightarrow> string" where
  "exact_str q =
     (let a = \<bar>q\<bar>
      in (if q < 0 then ''-'' else []) @ str_digits \<lfloor>a\<rfloor> @ ''.''
           @ [digit_char (\<lfloor>a * 10\<rfloor> mod 10)])"

definition exact_ops :: float_ops where
  "exact_ops = \<lparr>fl = (\<lambda>q. q), round1 = exact_round1, float_str = exact_str\<rparr>"

section \<open>Concrete inputs\<close>

definition all_shown :: config where
  "all_shown = \<lparr>minimal = False, show_ratio = True, show_saved = True, hide_cpu = False,
     hide_cpu_temp = False, hide_ram = False, hide_ram_cache = False, hide_zram = False,
     hide_swap = False\<rparr>"

definition all_hidden :: config where
  "all_hidden = \<lparr>minimal = False, show_ratio = True, show_saved = True, hide_cpu = True,
     hide_cpu_temp = True, hide_ram = True, hide_ram_cache = False, hide_zram = True,
     hide_swap = True\<rparr>"

text \<open>A machine with 16 GiB of memory, half of it available, one zram device holding
  600 MiB compressed to 150 MiB, and an unused swap file.\<close>

definition sample_state :: os_state where
  "sample_state = \<lparr>cpu_percent = 25 / 2, sensors_temp = Some (91 / 2),
     vm = \<lparr>vm_total = 17179869184, vm_available = 8589934592, vm_cached = 4294967296\<rparr>,
     proc_meminfo = Some [''MemTotal:       16777216 kB'' @ [CHR 0x0A],
                          ''Cached:          4194304 kB'' @ [CHR 0x0A],
                          ''Shmem:           1048576 kB'' @ [CHR 0x0A],
                          ''SReclaimable:     524288 kB'' @ [CHR 0x0A]],
     sys_block = Some [(''sda'', None, None),
                       (''zram0'', Some (''157286400'' @ [CHR 0x0A]), Some (''629145600'' @ [CHR 0x0A]))],
     proc_swaps = Some [''Filename Type Size Used Priority'' @ [CHR 0x0A],
                        ''/dev/zram0 partition 8388604 1024 100'' @ [CHR 0x0A],
                        ''/swapfile file 2097148 0 -2'' @ [CHR 0x0A]]\<rparr>"

text \<open>The same machine when /proc/meminfo reports more shared memory than page cache and
  reclaimable slab together.\<close>

text \<open>Its /proc/meminfo, and the dictionary read from it.\<close>

definition shmem_lines :: "string list" where
  "shmem_lines = [''Cached:             1024 kB'' @ [CHR 0x0A],
                  ''SReclaimable:       1024 kB'' @ [CHR 0x0A],
                  ''Shmem:              4096 kB'' @ [CHR 0x0A]]"

definition shmem_dict :: "string \<rightharpoonup> int" where
  "shmem_dict = [''Cached'' \<mapsto> 1024, ''SReclaimable'' \<mapsto> 1024, ''Shmem'' \<mapsto> 4096]"

definition shmem_state :: os_state where
  "shmem_state = sample_state\<lparr>proc_meminfo := Some shmem_lines\<rparr>"

text \<open>A zram device that is set up as swap but holds no data yet.\<close>

definition idle_zram_state :: os_state where
  "idle_zram_state = sample_state\<lparr>sys_block := Some [(''zram0'', Some ''0'', Some ''0'')]\<rparr>"

text \<open>A zram device whose original data size is below one kilobyte.\<close>

definition tiny_zram_state :: os_state where
  "tiny_zram_state = sample_state\<lparr>sys_block := Some [(''zram0'', Some ''2048'', Some ''512'')]\<rparr>"

section \<open>Evaluation of the parsers\<close>

lemmas parse_defs =
  parse_meminfo_line_def py_split_sep_def py_split_def py_strip_def py_int_def is_space_def
  is_digit_def digit_val_def int_field_def

lemma sample_meminfo:
  "ram_cached_kb sample_state = 3670016"
  by (simp add: ram_cached_kb_def sample_state_def dict_get_def parse_defs)

lemma shmem_meminfo:
  "ram_cached_kb shmem_state = - 2048"
  by (simp add: ram_cached_kb_def shmem_state_def shmem_lines_def sample_state_def dict_get_def parse_defs)

section \<open>RAM reader\<close>

lemma div_1024_nonneg_iff: "(0 \<le> (k::int) div 1024) = (0 \<le> k)"
  by (simp add: pos_imp_zdiv_nonneg_iff)

lemma get_ram_usage_cached: "snd (snd (get_ram_usage st)) = ram_cached_kb st div 1024"
  by (simp add: get_ram_usage_def Let_def)

text \<open>
  C1, as the code has it. The cached component is the kilobyte value floor-divided by 1024
  and nothing clamps it, so it is non-negative exactly when that kilobyte value is: with a
  /proc/meminfo that parses, exactly when Shmem does not exceed Cached + SReclaimable; on
  the fallback path (file unreadable or malformed), exactly when the cached statistic of
  the virtual-memory summary is non-negative.
\<close>

theorem ram_cached_nonneg_iff:
  "(proc_meminfo st = Some lines \<and> read_meminfo lines Map.empty = Inr meminfo \<longrightarrow>
      (0 \<le> snd (snd (get_ram_usage st))) =
      (dict_get meminfo ''Shmem'' 0 \<le> dict_get meminfo ''Cached'' 0 + dict_get meminfo ''SReclaimable'' 0))
   \<and> (proc_meminfo st = None \<or> (proc_meminfo st = Some lines \<and> read_meminfo lines Map.empty = Inl e) \<longrightarrow>
      (0 \<le> snd (snd (get_ram_usage st))) = (0 \<le> vm_cached (vm st)))"
proof (intro conjI impI)
  assume "proc_meminfo st = Some lines \<and> read_meminfo lines Map.empty = Inr meminfo"
  then have "ram_cached_kb st =
      dict_get meminfo ''Cached'' 0 + dict_get meminfo ''SReclaimable'' 0 - dict_get meminfo ''Shmem'' 0"
    by (simp add: ram_cached_kb_def)
  then show "(0 \<le> snd (snd (get_ram_usage st))) =
      (dict_get meminfo ''Shmem'' 0 \<le> dict_get meminfo ''Cached'' 0 + dict_get meminfo ''SReclaimable'' 0)"
    by (simp add: get_ram_usage_cached div_1024_nonneg_iff)
next
  assume "proc_meminfo st = None \<or> (proc_meminfo st = Some lines \<and> read_meminfo lines Map.empty = Inl e)"
  then have "ram_cached_kb st = vm_cached (vm st) div 1024"
    by (auto simp add: ram_cached_kb_def)
  then show "(0 \<le> snd (snd (get_ram_usage st))) = (0 \<le> vm_cached (vm st))"
    by (simp add: get_ram_usage_cached div_1024_nonneg_iff)
qed

theorem ram_cached_nonneg_iff_witness:
  "proc_meminfo shmem_state = Some shmem_lines
   \<and> read_meminfo shmem_lines Map.empty = Inr shmem_dict
   \<and> \<not> dict_get shmem_dict ''Shmem'' 0 \<le> dict_get shmem_dict ''Cached'' 0 + dict_get shmem_dict ''SReclaimable'' 0
   \<and> \<not> 0 \<le> snd (snd (get_ram_usage shmem_state))"
proof -
  have h1: "proc_meminfo shmem_state = Some shmem_lines"
    by (simp add: shmem_state_def)
  have h2: "read_meminfo shmem_lines Map.empty = Inr shmem_dict"
    by (simp add: shmem_lines_def shmem_dict_def parse_defs)
  have h3: "\<not> dict_get shmem_dict ''Shmem'' 0 \<le> dict_get shmem_dict ''Cached'' 0 + dict_get shmem_dict ''SReclaimable'' 0"
    by (simp add: shmem_dict_def dict_get_def)
  from ram_cached_nonneg_iff [of shmem_state shmem_lines shmem_dict] h1 h2 h3
  show ?thesis by simp
qed

text \<open>
  C1 as stated fails: with Cached = 1024, SReclaimable = 1024 and Shmem = 4096 the reader
  returns a cached component of -2 megabytes.
\<close>

theorem ram_cached_negative: "snd (snd (get_ram_usage shmem_state)) = - 2"
  by (simp add: get_ram_usage_cached shmem_meminfo)

text \<open>
  C8. When the virtual-memory summary reports 0 <= available <= total, the used component
  of the reader's result does not exceed the total component.
\<close>

theorem ram_used_le_total:
  assumes "0 \<le> vm_available (vm st)" and "vm_available (vm st) \<le> vm_total (vm st)"
  shows "fst (get_ram_usage st) \<le> fst (snd (get_ram_usage st))"
proof -
  have "vm_total (vm st) - vm_available (vm st) \<le> vm_total (vm st)"
    using assms by simp
  then have "(vm_total (vm st) - vm_available (vm st)) div 1024 ^ 2 \<le> vm_total (vm st) div 1024 ^ 2"
    by (rule zdiv_mono1) simp
  then show ?thesis
    by (simp add: get_ram_usage_def Let_def)
qed

theorem ram_used_le_total_witness:
  "0 \<le> vm_available (vm sample_state) \<and> vm_available (vm sample_state) \<le> vm_total (vm sample_state)
   \<and> fst (get_ram_usage sample_state) = 8192 \<and> fst (snd (get_ram_usage sample_state)) = 16384"
proof -
  have h1: "0 \<le> vm_available (vm sample_state)"
    by (simp add: sample_state_def)
  have h2: "vm_available (vm sample_state) \<le> vm_total (vm sample_state)"
    by (simp add: sample_state_def)
  from ram_used_le_total [OF h1 h2] h1 h2 show ?thesis
    by (simp add: get_ram_usage_def Let_def sample_state_def)
qed

section \<open>Threshold colouring\<close>

text \<open>
  C7. For ascending thresholds, \<open>color\<close> wraps the text of the value in the ok marker
  below warn, in the warning marker from warn up to (not including) crit, and in the
  critical marker from crit on; in minimal mode it returns the bare text of the value.
\<close>

theorem color_thresholds:
  assumes "num_val warn \<le> num_val crit"
  shows "(num_val v < num_val warn \<longrightarrow> color ops v warn crit False = green (py_str ops v))
       \<and> (num_val warn \<le> num_val v \<and> num_val v < num_val crit \<longrightarrow>
            color ops v warn crit False = yellow (py_str ops v))
       \<and> (num_val crit \<le> num_val v \<longrightarrow> color ops v warn crit False = red (py_str ops v))
       \<and> color ops v warn crit True = py_str ops v"
  using assms by (auto simp add: color_def)

theorem color_thresholds_witness:
  "num_val (PInt 70) \<le> num_val (PInt 90)
   \<and> color exact_ops (PFloat (25 / 2)) (PInt 70) (PInt 90) False = ESC # ''[32m12.5'' @ ESC # ''[0m''
   \<and> color exact_ops (PInt 75) (PInt 70) (PInt 90) False = ESC # ''[33m75'' @ ESC # ''[0m''
   \<and> color exact_ops (PInt 90) (PInt 70) (PInt 90) False = ESC # ''[31m90'' @ ESC # ''[0m''
   \<and> color exact_ops (PInt 90) (PInt 70) (PInt 90) True = ''90''"
proof -
  have h: "num_val (PInt 70) \<le> num_val (PInt 90)" by simp
  have s1: "py_str exact_ops (PFloat (25 / 2)) = ''12.5''" by code_simp
  have s2: "py_str exact_ops (PInt 75) = ''75''" by code_simp
  have s3: "py_str exact_ops (PInt 90) = ''90''" by code_simp
  from color_thresholds [OF h, of "PFloat (25 / 2)" exact_ops]
       color_thresholds [OF h, of "PInt 75" exact_ops]
       color_thresholds [OF h, of "PInt 90" exact_ops] h
  show ?thesis
    by (simp add: s1 s2 s3 green_def yellow_def red_def)
qed

section \<open>Orchestrator\<close>

text \<open>
  C9. With every metric disabled (no\_cpu, no\_cpu\_temp, no\_ram, no\_zram and no\_swap
  all set) the program writes exactly one empty line, whatever the other options and the
  state of the machine are; in particular no zram placeholder is written.
\<close>

theorem all_hidden_empty_line:
  assumes "hide_cpu cfg" and "hide_cpu_temp cfg" and "hide_ram cfg" and "hide_zram cfg"
    and "hide_swap cfg"
  shows "main ops cfg st = Inr [CHR 0x0A]"
  using assms
  by (simp add: main_def output_parts_def zram_part_def cpu_part_def temp_part_def ram_part_def
      swap_part_def)

theorem all_hidden_empty_line_witness:
  "hide_cpu all_hidden \<and> hide_cpu_temp all_hidden \<and> hide_ram all_hidden \<and> hide_zram all_hidden
   \<and> hide_swap all_hidden \<and> main exact_ops all_hidden sample_state = Inr [CHR 0x0A]"
proof -
  have h: "hide_cpu all_hidden" "hide_cpu_temp all_hidden" "hide_ram all_hidden"
    "hide_zram all_hidden" "hide_swap all_hidden"
    by (simp_all add: all_hidden_def)
  from all_hidden_empty_line [OF h, of exact_ops sample_state] h show ?thesis
    by simp
qed

end
